theory Spec2Isabelle
  imports Complex_Main "HOL-Library.AList"
begin

section \<open>Airline analytics dashboard (frontend/app.js)\<close>

text \<open>
  A shallow embedding of the dashboard script. JavaScript numbers that the script only
  ever uses as integers are \<open>int\<close> or \<open>nat\<close>; the doubles produced by
  \<open>Math.random\<close>, \<open>Math.sin\<close> and division are read as reals. Strings are
  \<open>string\<close>, arrays are lists, and the flight objects are records whose fields carry
  the property names the script reads (\<open>flight_number\<close>, \<open>departure_time\<close>,
  \<open>arrival_time\<close>, ...).
\<close>

subsection \<open>Strings and numbers\<close>

definition digitChar :: "nat \<Rightarrow> char" where
  "digitChar d = ''0123456789'' ! d"

text \<open>Decimal digits of a natural number; \<open>digitChar\<close> is only read below 10.\<close>

fun digits :: "nat \<Rightarrow> string" where
  "digits n = (if n < 10 then [digitChar n] else digits (n div 10) @ [digitChar (n mod 10)])"

declare digits.simps [simp del]

text \<open>\<open>Number.prototype.toString\<close> on an integer value.\<close>

definition toString :: "int \<Rightarrow> string" where
  "toString i = (if i < 0 then CHR ''-'' # digits (nat (- i)) else digits (nat i))"

text \<open>\<open>Array.prototype.join\<close> on an array of strings.\<close>

fun join :: "string \<Rightarrow> string list \<Rightarrow> string" where
  "join sep [] = []"
| "join sep [x] = x"
| "join sep (x # y # ys) = x @ sep @ join sep (y # ys)"

subsection \<open>Flight records\<close>

record flight =
  flight_number :: string
  airline :: string
  origin :: string
  destination :: string
  route :: string
  departure_time :: string
  arrival_time :: string
  price :: int
  duration :: string
  status :: string
  date :: string

subsection \<open>CSV export\<close>

definition csvHeaders :: "string list" where
  "csvHeaders = [''Flight Number'', ''Airline'', ''Route'', ''Departure'', ''Arrival'',
     ''Price'', ''Status'']"

definition csvRow :: "flight \<Rightarrow> string" where
  "csvRow f = join '',''
     [flight_number f, airline f, route f, departure_time f, arrival_time f,
      toString (price f), status f]"

definition convertToCSV :: "flight list \<Rightarrow> string" where
  "convertToCSV data = join [CHR 0x0A] (join '','' csvHeaders # map csvRow data)"

subsection \<open>The random source\<close>

text \<open>
  \<open>Math.random()\<close> returns a number \<open>r\<close> with \<open>0 \<le> r < 1\<close>. The type
  \<open>rand01\<close> holds exactly these values, and the random source is the stream of the
  values that successive calls return. A call reads the head and leaves the tail.
\<close>

typedef rand01 = "{r::real. 0 \<le> r \<and> r < 1}"
  by (rule exI [of _ 0]) simp

setup_lifting type_definition_rand01

lift_definition fraction :: "nat \<Rightarrow> nat \<Rightarrow> rand01" is
  "\<lambda>a b. if a < b then real a / real b else 0"
  by simp

type_synonym rng = "nat \<Rightarrow> rand01"

definition random :: "rng \<Rightarrow> real \<times> rng" where
  "random g = (Rep_rand01 (g 0), \<lambda>n. g (Suc n))"

text \<open>\<open>Math.floor(Math.random() * n)\<close>\<close>

definition floorRandom :: "nat \<Rightarrow> rng \<Rightarrow> nat \<times> rng" where
  "floorRandom n g = (let (r, g') = random g in (nat \<lfloor>r * real n\<rfloor>, g'))"

text \<open>The source that returns \<open>1 / 2\<close> on every call.\<close>

definition halves :: rng where
  "halves = (\<lambda>n. fraction 1 2)"

subsection \<open>Sample data\<close>

definition airlines :: "string list" where
  "airlines = [''American Airlines'', ''Delta Air Lines'', ''United Airlines'',
     ''Southwest Airlines'', ''JetBlue Airways'', ''Alaska Airlines'', ''Spirit Airlines'',
     ''Frontier Airlines'']"

definition airports :: "string list" where
  "airports = [''JFK'', ''LAX'', ''ORD'', ''DFW'', ''DEN'', ''SFO'', ''LAS'', ''MIA'', ''BOS'',
     ''SEA'', ''ATL'', ''PHX'', ''LGA'', ''EWR'', ''IAD'', ''DCA'']"

definition statuses :: "string list" where
  "statuses = [''On Time'', ''Delayed'', ''Boarding'', ''Departed'']"

text \<open>\<open>String.prototype.toUpperCase\<close>, on the ASCII letters.\<close>

definition upperChar :: "char \<Rightarrow> char" where
  "upperChar c =
     (case map_of (zip ''abcdefghijklmnopqrstuvwxyz'' ''ABCDEFGHIJKLMNOPQRSTUVWXYZ'') c of
        None \<Rightarrow> c | Some u \<Rightarrow> u)"

definition toUpperCase :: "string \<Rightarrow> string" where
  "toUpperCase s = map upperChar s"

definition padStart :: "nat \<Rightarrow> char \<Rightarrow> string \<Rightarrow> string" where
  "padStart n c s = replicate (n - length s) c @ s"

text \<open>The template \<open>`${h.toString().padStart(2, '0')}:${m.toString().padStart(2, '0')}`\<close>\<close>

definition clock :: "nat \<Rightarrow> nat \<Rightarrow> string" where
  "clock h m =
     padStart 2 (CHR ''0'') (toString (int h)) @ '':'' @ padStart 2 (CHR ''0'') (toString (int m))"

text \<open>
  One pass through the body of the loop of \<open>generateSampleData\<close>. The calls of
  \<open>Math.random\<close> are threaded in the order the script makes them; \<open>a || b\<close> does
  not evaluate \<open>b\<close> when the string \<open>a\<close> is non-empty. \<open>today\<close> is
  \<open>new Date().toISOString().split('T')[0]\<close>.
\<close>

definition sampleFlight :: "string \<Rightarrow> string \<Rightarrow> string \<Rightarrow> rng \<Rightarrow> flight \<times> rng" where
  "sampleFlight origin' destination' today g0 =
     (let (fromAirport, g1) =
            (if origin' \<noteq> [] then (origin', g0)
             else (let (i, g) = floorRandom (length airports) g0 in (airports ! i, g)));
          (toAirport, g2) =
            (if destination' \<noteq> [] then (destination', g1)
             else (let (i, g) = floorRandom (length airports - 1) g1
                   in (filter (\<lambda>a. a \<noteq> fromAirport) airports ! i, g)));
          (ai, g3) = floorRandom (length airlines) g2;
          airline' = airlines ! ai;
          (p, g4) = floorRandom 800 g3;
          price' = int p + 200;
          (r5, g5) = random g4;
          flightNumber =
            toUpperCase (take 2 (takeWhile (\<lambda>c. c \<noteq> CHR '' '') airline')) @
            toString \<lfloor>r5 * 9000 + 1000\<rfloor>;
          (departureHour, g6) = floorRandom 24 g5;
          (departureMinute, g7) = floorRandom 60 g6;
          (d, g8) = floorRandom 6 g7;
          flightDuration = d + 1;
          arrivalHour = (departureHour + flightDuration) mod 24;
          (m, g9) = floorRandom 60 g8;
          arrivalMinute = (departureMinute + m) mod 60;
          (dm, g10) = floorRandom 60 g9;
          (si, g11) = floorRandom (length statuses) g10
      in (\<lparr>flight_number = flightNumber,
           airline = airline',
           origin = fromAirport,
           destination = toAirport,
           route = fromAirport @ ''-'' @ toAirport,
           departure_time = clock departureHour departureMinute,
           arrival_time = clock arrivalHour arrivalMinute,
           price = price',
           duration = toString (int flightDuration) @ ''h '' @ toString (int dm) @ ''m'',
           status = statuses ! si,
           date = today\<rparr>, g11))"

text \<open>The loop \<open>for (let i = 0; i < limit; i++)\<close>, run \<open>n\<close> times.\<close>

fun sampleLoop :: "nat \<Rightarrow> string \<Rightarrow> string \<Rightarrow> string \<Rightarrow> rng \<Rightarrow> flight list \<times> rng" where
  "sampleLoop 0 origin' destination' today g = ([], g)"
| "sampleLoop (Suc n) origin' destination' today g =
     (let (f, g1) = sampleFlight origin' destination' today g;
          (fs, g2) = sampleLoop n origin' destination' today g1
      in (f # fs, g2))"

text \<open>
  \<open>limit\<close> is a JavaScript number holding an integer, or \<open>NaN\<close> (\<open>None\<close>):
  \<open>i < NaN\<close> is false, so the body never runs, as for a limit below 1.
\<close>

definition generateSampleData ::
  "int option \<Rightarrow> string \<Rightarrow> string \<Rightarrow> string \<Rightarrow> rng \<Rightarrow> flight list \<times> rng" where
  "generateSampleData limit origin' destination' today g =
     sampleLoop (case limit of None \<Rightarrow> 0 | Some n \<Rightarrow> nat n) origin' destination' today g"

subsection \<open>Statistics cards\<close>

text \<open>
  \<open>a || b\<close> on a count: a count is a number that is never \<open>NaN\<close>, so it is falsy
  exactly when it is 0.
\<close>

definition orElse :: "nat \<Rightarrow> nat \<Rightarrow> nat" where
  "orElse a b = (if a = 0 then b else a)"

text \<open>
  The four numbers of the statistics cards. The global \<open>dashboardStats\<close> has the
  same four fields (its \<open>airlines\<close> and \<open>airports\<close> are \<open>totalAirlines\<close> and
  \<open>totalAirports\<close> here, after the elements that show them) and is never assigned.
\<close>

record stats =
  totalFlights :: nat
  uniqueRoutes :: nat
  totalAirlines :: nat
  totalAirports :: nat

definition dashboardStats :: stats where
  "dashboardStats = \<lparr>totalFlights = 300, uniqueRoutes = 10, totalAirlines = 10, totalAirports = 10\<rparr>"

subsection \<open>Objects used as counters\<close>

text \<open>
  A plain object that the script fills by assignment \<open>obj[key] = v\<close> is the list of
  its own properties in the order of their creation: assigning to an existing key
  replaces the value in place, assigning to a new key appends. This is \<open>AList.update\<close>.
  Reading a key that the object does not have gives \<open>undefined\<close> (\<open>None\<close>); members
  inherited from \<open>Object.prototype\<close> (keys such as \<open>constructor\<close>) are outside this
  model.

  \<open>Object.entries\<close> lists the properties whose key is an array index (the decimal
  numeral, without leading zeros, of an integer from 0 to \<open>2^32 - 2\<close>) first, in
  ascending numeric order, and then all other properties in the order of their creation.
\<close>

type_synonym 'v object = "(string \<times> 'v) list"

definition digitValue :: "char \<Rightarrow> nat option" where
  "digitValue c = map_of (zip ''0123456789'' [0, 1, 2, 3, 4, 5, 6, 7, 8, 9]) c"

definition isDigit :: "char \<Rightarrow> bool" where
  "isDigit c = (digitValue c \<noteq> None)"

definition parseDigits :: "string \<Rightarrow> nat" where
  "parseDigits s = foldl (\<lambda>a c. 10 * a + (case digitValue c of None \<Rightarrow> 0 | Some d \<Rightarrow> d)) 0 s"

definition isArrayIndex :: "string \<Rightarrow> bool" where
  "isArrayIndex k =
     (k \<noteq> [] \<and> list_all isDigit k \<and> (k = ''0'' \<or> hd k \<noteq> CHR ''0'') \<and>
      parseDigits k < 2 ^ 32 - 1)"

definition Object_entries :: "'v object \<Rightarrow> (string \<times> 'v) list" where
  "Object_entries obj =
     sort_key (\<lambda>(k, v). parseDigits k) (filter (\<lambda>(k, v). isArrayIndex k) obj) @
     filter (\<lambda>(k, v). \<not> isArrayIndex k) obj"

text \<open>
  The loop \<open>forEach(flight => { data[key] = (data[key] || 0) + 1 })\<close>, as
  \<open>updateCharts\<close> runs it with the key \<open>flight.route\<close> and again with the key
  \<open>flight.airline\<close>.
\<close>

definition countInto :: "string \<Rightarrow> nat object \<Rightarrow> nat object" where
  "countInto k obj =
     AList.update k (orElse (case map_of obj k of None \<Rightarrow> 0 | Some c \<Rightarrow> c) 0 + 1) obj"

definition countBy :: "(flight \<Rightarrow> string) \<Rightarrow> flight list \<Rightarrow> nat object" where
  "countBy key fs = fold (\<lambda>f obj. countInto (key f) obj) fs []"

text \<open>
  \<open>entries.sort(([, a], [, b]) => b - a)\<close>, and in \<open>updateTopRoutes\<close> the same with
  \<open>b.count - a.count\<close>; \<open>cnt\<close> reads the count off a value. \<open>Array.prototype.sort\<close>
  is stable, and the comparator orders by descending count: this is the stable sort on
  the key \<open>- count\<close>, which \<open>sort_key\<close> is.
\<close>

definition sortByCount :: "('v \<Rightarrow> nat) \<Rightarrow> (string \<times> 'v) list \<Rightarrow> (string \<times> 'v) list" where
  "sortByCount cnt entries = sort_key (\<lambda>(k, v). - int (cnt v)) entries"

subsection \<open>Price trend\<close>

text \<open>\<open>Math.round\<close> rounds to the nearest integer, a half upwards.\<close>

definition Math_round :: "real \<Rightarrow> int" where
  "Math_round x = \<lfloor>x + 1 / 2\<rfloor>"

record 'a chart =
  labels :: "string list"
  data :: "'a list"

text \<open>The price pushed by the pass of the loop with day offset \<open>i\<close> and draw \<open>r\<close>.\<close>

definition trendPrice :: "nat \<Rightarrow> real \<Rightarrow> int" where
  "trendPrice i r =
     (let basePrice = 450;
          variation = (r - 0.5) * 100;
          seasonalEffect = sin (real i * 0.1) * 50;
          price' = max 200 (basePrice + variation + seasonalEffect)
      in Math_round price')"

text \<open>
  The loop \<open>for (let i = 30; i >= 0; i--)\<close>, entered at \<open>i\<close>. \<open>dateLabel i\<close> is
  the label (\<open>toLocaleDateString\<close>, short month and day) of the date \<open>i\<close> days
  before today.
\<close>

fun trendLoop :: "nat \<Rightarrow> (nat \<Rightarrow> string) \<Rightarrow> rng \<Rightarrow> int chart \<times> rng" where
  "trendLoop 0 dateLabel g =
     (let (r, g1) = random g
      in (\<lparr>labels = [dateLabel 0], data = [trendPrice 0 r]\<rparr>, g1))"
| "trendLoop (Suc i) dateLabel g =
     (let (r, g1) = random g;
          (rest, g2) = trendLoop i dateLabel g1
      in (\<lparr>labels = dateLabel (Suc i) # labels rest,
           data = trendPrice (Suc i) r # data rest\<rparr>, g2))"

definition generatePriceTrend :: "(nat \<Rightarrow> string) \<Rightarrow> rng \<Rightarrow> int chart \<times> rng" where
  "generatePriceTrend dateLabel g = trendLoop 30 dateLabel g"

subsection \<open>Flight table and top routes\<close>

definition getStatusBadgeClass :: "string \<Rightarrow> string" where
  "getStatusBadgeClass st =
     (if st = ''On Time'' then ''badge-success''
      else if st = ''Delayed'' then ''badge-warning''
      else if st = ''Boarding'' then ''badge-info''
      else if st = ''Departed'' then ''badge-info''
      else ''badge-secondary'')"

text \<open>
  The table body and the top-routes list are kept as the values that the script
  interpolates into its markup templates, cell by cell; the fixed markup around them is
  left out.
\<close>

record tableRow =
  row_flight_number :: string
  row_route :: string
  row_airline :: string
  row_departure :: string
  row_arrival :: string
  row_price :: string
  row_badge :: string
  row_status :: string

datatype tableBody = NoFlightData | Rows "tableRow list"

record routeItem =
  route_name :: string
  route_stats :: string
  route_badge :: string

text \<open>The bullet character of the route statistics line, in UTF-8.\<close>

definition bullet :: string where
  "bullet = [CHR 0xE2, CHR 0x80, CHR 0xA2]"

record routeStat =
  count :: nat
  totalPrice :: int
  flights :: "flight list"

text \<open>The body of the \<open>forEach\<close> of \<open>updateTopRoutes\<close>.\<close>

definition addToRouteStats :: "flight \<Rightarrow> routeStat object \<Rightarrow> routeStat object" where
  "addToRouteStats f obj =
     (let st = (case map_of obj (route f) of
                  None \<Rightarrow> \<lparr>count = 0, totalPrice = 0, flights = []\<rparr>
                | Some st \<Rightarrow> st)
      in AList.update (route f)
           (st\<lparr>count := count st + 1, totalPrice := totalPrice st + price f,
               flights := flights st @ [f]\<rparr>) obj)"

definition routeItemOf :: "nat \<Rightarrow> string \<times> routeStat \<Rightarrow> routeItem" where
  "routeItemOf len entry =
     (let (route', st) = entry;
          avgPrice = Math_round (real_of_int (totalPrice st) / real (count st));
          popularity = Math_round (real (count st) / real len * 100)
      in \<lparr>route_name = route',
          route_stats = toString (int (count st)) @ '' flights '' @ bullet @ '' Avg $'' @
            toString avgPrice,
          route_badge = toString popularity @ ''%''\<rparr>)"

subsection \<open>The page\<close>

datatype limitOption = Limit50 | Limit100 | Limit200 | Limit500

text \<open>The \<open>value\<close> of the select element \<open>dataLimit\<close>: one of its four options.\<close>

fun optionValue :: "limitOption \<Rightarrow> string" where
  "optionValue Limit50 = ''50''"
| "optionValue Limit100 = ''100''"
| "optionValue Limit200 = ''200''"
| "optionValue Limit500 = ''500''"

definition isSpace :: "char \<Rightarrow> bool" where
  "isSpace c = (c \<in> set [CHR 0x20, CHR 0x09, CHR 0x0A, CHR 0x0B, CHR 0x0C, CHR 0x0D])"

text \<open>
  \<open>parseInt\<close> on a decimal string: leading white space, an optional sign, the longest
  run of digits; \<open>NaN\<close> (\<open>None\<close>) when there is no digit. The hexadecimal prefix is
  not modelled.
\<close>

definition parseInt :: "string \<Rightarrow> int option" where
  "parseInt s =
     (let t = dropWhile isSpace s;
          u = (if take 1 t = ''-'' \<or> take 1 t = ''+'' then drop 1 t else t);
          ds = takeWhile isDigit u
      in if ds = [] then None
         else Some ((if take 1 t = ''-'' then - 1 else 1) * int (parseDigits ds)))"

text \<open>
  \<open>xs.slice(0, end)\<close>: \<open>NaN\<close> counts as 0, and a negative end counts from the end
  of the array.
\<close>

definition slice0 :: "'a list \<Rightarrow> int option \<Rightarrow> 'a list" where
  "slice0 xs end' =
     (case end' of
        None \<Rightarrow> []
      | Some n \<Rightarrow> if n < 0 then take (nat (int (length xs) + n)) xs else take (nat n) xs)"

text \<open>
  The state of the page: the global \<open>currentFlightData\<close>, the values of the three
  filter inputs, what the page shows, what the script has reported (alerts, downloads,
  console errors), and the two things it reads from outside: the random source and the
  calendar (\<open>todayISO\<close> is today's date, \<open>dateLabels i\<close> the label of the date
  \<open>i\<close> days ago).
\<close>

record world =
  currentFlightData :: "flight list"
  fromAirportInput :: string
  toAirportInput :: string
  dataLimit :: limitOption
  statCards :: stats
  routeChart :: "nat chart"
  airlineChart :: "nat chart"
  priceChart :: "int chart"
  flightTableBody :: tableBody
  topRoutesList :: "routeItem list"
  loadingOverlay :: bool
  alerts :: "string list"
  downloads :: "(string \<times> string) list"
  consoleErrors :: "string list"
  randomSource :: rng
  dateLabels :: "nat \<Rightarrow> string"
  todayISO :: string

subsection \<open>Rendering\<close>

definition updateStatistics :: "world \<Rightarrow> world" where
  "updateStatistics w =
     (let totalFlights' = orElse (length (currentFlightData w)) (totalFlights dashboardStats);
          uniqueRoutes' =
            orElse (card (set (map route (currentFlightData w)))) (uniqueRoutes dashboardStats);
          airlines' =
            orElse (card (set (map airline (currentFlightData w)))) (totalAirlines dashboardStats);
          airports' =
            orElse (card (set (concat (map (\<lambda>f. [origin f, destination f]) (currentFlightData w)))))
              (totalAirports dashboardStats)
      in w\<lparr>statCards := \<lparr>totalFlights = totalFlights', uniqueRoutes = uniqueRoutes',
             totalAirlines = airlines', totalAirports = airports'\<rparr>\<rparr>)"

definition updateChartsWithSampleData :: "world \<Rightarrow> world" where
  "updateChartsWithSampleData w =
     (let sampleRoutes = [''JFK-LAX'', ''ORD-LAS'', ''DFW-DEN'', ''BOS-SFO'', ''MIA-LGA'',
            ''ATL-PHX'', ''SEA-IAD'', ''EWR-DCA''];
          sampleRouteCounts = [45, 38, 32, 28, 25, 22, 18, 15];
          sampleAirlines = [''American Airlines'', ''Delta Air Lines'', ''United Airlines'',
            ''Southwest Airlines'', ''JetBlue Airways'', ''Alaska Airlines''];
          sampleAirlineCounts = [28, 25, 22, 15, 12, 8];
          (priceData, g) = generatePriceTrend (dateLabels w) (randomSource w)
      in w\<lparr>routeChart := \<lparr>labels = sampleRoutes, data = sampleRouteCounts\<rparr>,
           airlineChart := \<lparr>labels = sampleAirlines, data = sampleAirlineCounts\<rparr>,
           priceChart := priceData,
           randomSource := g\<rparr>)"

definition updateCharts :: "world \<Rightarrow> world" where
  "updateCharts w =
     (if length (currentFlightData w) = 0 then updateChartsWithSampleData w
      else
        (let routeData = countBy route (currentFlightData w);
             topRoutes = take 8 (sortByCount (\<lambda>c. c) (Object_entries routeData));
             airlineData = countBy airline (currentFlightData w);
             topAirlines = take 8 (sortByCount (\<lambda>c. c) (Object_entries airlineData));
             (priceData, g) = generatePriceTrend (dateLabels w) (randomSource w)
         in w\<lparr>routeChart := \<lparr>labels = map fst topRoutes, data = map snd topRoutes\<rparr>,
              airlineChart := \<lparr>labels = map fst topAirlines, data = map snd topAirlines\<rparr>,
              priceChart := priceData,
              randomSource := g\<rparr>))"

definition updateFlightTable :: "world \<Rightarrow> world" where
  "updateFlightTable w =
     (let displayData = take 20 (currentFlightData w)
      in if length displayData = 0 then w\<lparr>flightTableBody := NoFlightData\<rparr>
         else w\<lparr>flightTableBody := Rows (map (\<lambda>f.
                \<lparr>row_flight_number = flight_number f,
                 row_route = route f,
                 row_airline = airline f,
                 row_departure = departure_time f,
                 row_arrival = arrival_time f,
                 row_price = ''$'' @ toString (price f),
                 row_badge = getStatusBadgeClass (status f),
                 row_status = status f\<rparr>) displayData)\<rparr>)"

definition updateTopRoutes :: "world \<Rightarrow> world" where
  "updateTopRoutes w =
     (if length (currentFlightData w) = 0 then
        w\<lparr>topRoutesList :=
            [\<lparr>route_name = ''JFK-LAX'', route_stats = ''45 flights '' @ bullet @ '' Popular'',
              route_badge = ''85%''\<rparr>,
             \<lparr>route_name = ''ORD-LAS'', route_stats = ''38 flights '' @ bullet @ '' High demand'',
              route_badge = ''78%''\<rparr>,
             \<lparr>route_name = ''DFW-DEN'', route_stats = ''32 flights '' @ bullet @ '' Moderate'',
              route_badge = ''72%''\<rparr>]\<rparr>
      else
        (let routeStats = fold addToRouteStats (currentFlightData w) [];
             topRoutes = take 5 (sortByCount count (Object_entries routeStats))
         in w\<lparr>topRoutesList := map (routeItemOf (length (currentFlightData w))) topRoutes\<rparr>))"

definition updateDashboard :: "world \<Rightarrow> world" where
  "updateDashboard w = updateTopRoutes (updateFlightTable (updateCharts (updateStatistics w)))"

definition showLoading :: "world \<Rightarrow> world" where
  "showLoading w = w\<lparr>loadingOverlay := True\<rparr>"

definition hideLoading :: "world \<Rightarrow> world" where
  "hideLoading w = w\<lparr>loadingOverlay := False\<rparr>"

subsection \<open>Loading and exporting\<close>

text \<open>
  What \<open>await fetch(...)\<close> followed by \<open>await response.json()\<close> can come to: the
  request fails (\<open>fetch\<close> throws), or a response arrives with its \<open>ok\<close> flag and a
  body that either does not parse to an object (\<open>JsonError\<close>: reading it throws) or is
  an object whose \<open>flights\<close> property is an array, or is absent (\<open>None\<close>).
\<close>

datatype json = JsonError | JsonData "flight list option"

datatype fetchResult = NetworkError | Response bool json

record searchParams =
  sp_origin :: "string option"
  sp_destination :: "string option"
  sp_date :: "string option"

definition loadFilteredData :: "(searchParams \<Rightarrow> fetchResult) \<Rightarrow> world \<Rightarrow> world" where
  "loadFilteredData fetch w0 =
     (let fromAirport = fromAirportInput w0;
          toAirport = toAirportInput w0;
          dataLimit' = optionValue (dataLimit w0);
          w = showLoading w0;
          searchParams' =
            \<lparr>sp_origin = (if fromAirport \<noteq> [] then Some (toUpperCase fromAirport) else None),
             sp_destination = (if toAirport \<noteq> [] then Some (toUpperCase toAirport) else None),
             sp_date = None\<rparr>;
          useSampleData = (\<lambda>w.
            let (fs, g) = generateSampleData (parseInt dataLimit') fromAirport toAirport
                            (todayISO w) (randomSource w)
            in hideLoading (updateDashboard (w\<lparr>currentFlightData := fs, randomSource := g\<rparr>)));
          onError = (\<lambda>w.
            useSampleData (w\<lparr>consoleErrors := consoleErrors w @ [''Error loading data:'']\<rparr>))
      in case fetch searchParams' of
           NetworkError \<Rightarrow> onError w
         | Response ok body \<Rightarrow>
             if ok then
               (case body of
                  JsonError \<Rightarrow> onError w
                | JsonData flights' \<Rightarrow>
                    hideLoading (updateDashboard
                      (w\<lparr>currentFlightData :=
                          (case flights' of
                             None \<Rightarrow> []
                           | Some fs \<Rightarrow> slice0 fs (parseInt dataLimit'))\<rparr>)))
             else useSampleData w)"




definition refreshData :: "(searchParams \<Rightarrow> fetchResult) \<Rightarrow> world \<Rightarrow> world" where
  "refreshData fetch w = loadFilteredData fetch w"


subsection \<open>Ranking order\<close>

text \<open>
  The vocabulary of the ranking claims. \<open>firstIndex keys k\<close> is the position at which
  \<open>k\<close> first occurs in \<open>keys\<close>. \<open>entriesBefore keys a b\<close> is the order in which
  \<open>Object.entries\<close> lists two keys of an object that was filled in the order of
  \<open>keys\<close>: array indices first, by ascending number, then the other keys by first
  occurrence. \<open>rankedBefore keys a b\<close> says that \<open>a\<close> occurs more often than \<open>b\<close>,
  or as often and \<open>entriesBefore\<close>.
\<close>

definition firstIndex :: "string list \<Rightarrow> string \<Rightarrow> nat" where
  "firstIndex keys k = length (takeWhile (\<lambda>x. x \<noteq> k) keys)"

definition entriesBefore :: "string list \<Rightarrow> string \<Rightarrow> string \<Rightarrow> bool" where
  "entriesBefore keys a b =
     ((isArrayIndex a \<and> \<not> isArrayIndex b) \<or>
      (isArrayIndex a \<and> isArrayIndex b \<and> parseDigits a \<le> parseDigits b) \<or>
      (\<not> isArrayIndex a \<and> \<not> isArrayIndex b \<and> firstIndex keys a < firstIndex keys b))"

definition rankedBefore :: "string list \<Rightarrow> string \<Rightarrow> string \<Rightarrow> bool" where
  "rankedBefore keys a b =
     (count_list keys a > count_list keys b \<or>
      (count_list keys a = count_list keys b \<and> entriesBefore keys a b))"


subsection \<open>Example inputs\<close>

text \<open>A server that answers every request with the same result.\<close>

definition always :: "fetchResult \<Rightarrow> searchParams \<Rightarrow> fetchResult" where
  "always r = (\<lambda>q. r)"

definition exampleFlight :: flight where
  "exampleFlight =
     \<lparr>flight_number = ''AA123'', airline = ''American Airlines'', origin = ''JFK'',
      destination = ''LAX'', route = ''JFK-LAX'', departure_time = ''08:00'',
      arrival_time = ''11:00'', price = 350, duration = ''3h 0m'', status = ''On Time'',
      date = ''2024-01-01''\<rparr>"

text \<open>
  The page as its markup has it before the script runs, with the random source
  \<open>halves\<close> and a calendar that labels the day \<open>i\<close> days ago by the number \<open>i\<close>.
\<close>

definition examplePage :: world where
  "examplePage =
     \<lparr>currentFlightData = [], fromAirportInput = [], toAirportInput = [],
      dataLimit = Limit50,
      statCards = \<lparr>totalFlights = 300, uniqueRoutes = 10, totalAirlines = 10, totalAirports = 10\<rparr>,
      routeChart = \<lparr>labels = [], data = []\<rparr>,
      airlineChart = \<lparr>labels = [], data = []\<rparr>,
      priceChart = \<lparr>labels = [], data = []\<rparr>,
      flightTableBody = Rows [], topRoutesList = [], loadingOverlay = False,
      alerts = [], downloads = [], consoleErrors = [],
      randomSource = halves, dateLabels = (\<lambda>i. toString (int i)),
      todayISO = ''2024-01-01''\<rparr>"


section \<open>Theorems\<close>

subsection \<open>Sample data\<close>

lemma random_range: "0 \<le> fst (random g) \<and> fst (random g) < 1"
  using Rep_rand01 [of "g 0"] by (simp add: random_def)

lemma floorRandom_less:
  assumes "0 < n"
  shows "fst (floorRandom n g) < n"
proof -
  let ?r = "fst (random g)"
  have r: "0 \<le> ?r" "?r < 1" using random_range [of g] by simp_all
  have "?r * real n < real n" using r assms by simp
  then have "\<lfloor>?r * real n\<rfloor> < int n" by (simp add: floor_less_iff)
  moreover have "0 \<le> \<lfloor>?r * real n\<rfloor>" using r by simp
  ultimately have "nat \<lfloor>?r * real n\<rfloor> < n" by linarith
  then show ?thesis by (simp add: floorRandom_def case_prod_beta)
qed

lemma length_filter_neq_nth:
  assumes "distinct xs" "i < length xs"
  shows "length (filter (\<lambda>a. a \<noteq> xs ! i) xs) = length xs - 1"
proof -
  have "filter (\<lambda>a. a \<noteq> x) xs = removeAll x xs" for x
    by (induction xs) auto
  then have "filter (\<lambda>a. a \<noteq> xs ! i) xs = removeAll (xs ! i) xs" .
  also have "\<dots> = remove1 (xs ! i) xs"
    using assms(1) by (simp add: distinct_remove1_removeAll)
  finally show ?thesis using assms(2) by (simp add: length_remove1)
qed

lemma distinct_airports: "distinct airports"
  by (simp add: airports_def)

lemma list_lengths: "length airports = 16" "length airlines = 8" "length statuses = 4"
  by (simp_all add: airports_def airlines_def statuses_def)

text \<open>What one pass of the loop produces, with the random source abstracted to the
  numbers drawn from it.\<close>

lemma sampleFlight_shape:
  "\<exists>i j ai p (r::real) dh dm d off mm si.
     i < 16 \<and> j < 15 \<and> ai < 8 \<and> p < 800 \<and> 0 \<le> r \<and> r < 1 \<and> dh < 24 \<and> dm < 60 \<and> d < 6 \<and>
     off < 60 \<and> mm < 60 \<and> si < 4 \<and>
     fst (sampleFlight origin' destination' today g) =
       \<lparr>flight_number =
          toUpperCase (take 2 (takeWhile (\<lambda>c. c \<noteq> CHR '' '') (airlines ! ai))) @
          toString \<lfloor>r * 9000 + 1000\<rfloor>,
        airline = airlines ! ai,
        origin = (if origin' \<noteq> [] then origin' else airports ! i),
        destination =
          (if destination' \<noteq> [] then destination'
           else filter (\<lambda>a. a \<noteq> (if origin' \<noteq> [] then origin' else airports ! i)) airports ! j),
        route = (if origin' \<noteq> [] then origin' else airports ! i) @ ''-'' @
          (if destination' \<noteq> [] then destination'
           else filter (\<lambda>a. a \<noteq> (if origin' \<noteq> [] then origin' else airports ! i)) airports ! j),
        departure_time = clock dh dm,
        arrival_time = clock ((dh + (d + 1)) mod 24) ((dm + off) mod 60),
        price = int p + 200,
        duration = toString (int (d + 1)) @ ''h '' @ toString (int mm) @ ''m'',
        status = statuses ! si,
        date = today\<rparr>"
proof -
  define g1 where "g1 = (if origin' \<noteq> [] then g else snd (floorRandom 16 g))"
  define g2 where "g2 = (if destination' \<noteq> [] then g1 else snd (floorRandom 15 g1))"
  define g3 where "g3 = snd (floorRandom 8 g2)"
  define g4 where "g4 = snd (floorRandom 800 g3)"
  define g5 where "g5 = snd (random g4)"
  define g6 where "g6 = snd (floorRandom 24 g5)"
  define g7 where "g7 = snd (floorRandom 60 g6)"
  define g8 where "g8 = snd (floorRandom 6 g7)"
  define g9 where "g9 = snd (floorRandom 60 g8)"
  define g10 where "g10 = snd (floorRandom 60 g9)"
  note gs = g1_def g2_def g3_def g4_def g5_def g6_def g7_def g8_def g9_def g10_def
  have bounds:
    "fst (floorRandom 16 g) < 16" "fst (floorRandom 15 g1) < 15" "fst (floorRandom 8 g2) < 8"
    "fst (floorRandom 800 g3) < 800" "0 \<le> fst (random g4)" "fst (random g4) < 1"
    "fst (floorRandom 24 g5) < 24" "fst (floorRandom 60 g6) < 60" "fst (floorRandom 6 g7) < 6"
    "fst (floorRandom 60 g8) < 60" "fst (floorRandom 60 g9) < 60" "fst (floorRandom 4 g10) < 4"
    using random_range [of g4] by (simp_all add: floorRandom_less)
  have eq: "fst (sampleFlight origin' destination' today g) =
       \<lparr>flight_number =
          toUpperCase (take 2 (takeWhile (\<lambda>c. c \<noteq> CHR '' '') (airlines ! fst (floorRandom 8 g2)))) @
          toString \<lfloor>fst (random g4) * 9000 + 1000\<rfloor>,
        airline = airlines ! fst (floorRandom 8 g2),
        origin = (if origin' \<noteq> [] then origin' else airports ! fst (floorRandom 16 g)),
        destination =
          (if destination' \<noteq> [] then destination'
           else filter (\<lambda>a. a \<noteq> (if origin' \<noteq> [] then origin' else airports ! fst (floorRandom 16 g))) airports ! fst (floorRandom 15 g1)),
        route = (if origin' \<noteq> [] then origin' else airports ! fst (floorRandom 16 g)) @ ''-'' @
          (if destination' \<noteq> [] then destination'
           else filter (\<lambda>a. a \<noteq> (if origin' \<noteq> [] then origin' else airports ! fst (floorRandom 16 g))) airports ! fst (floorRandom 15 g1)),
        departure_time = clock (fst (floorRandom 24 g5)) (fst (floorRandom 60 g6)),
        arrival_time = clock ((fst (floorRandom 24 g5) + (fst (floorRandom 6 g7) + 1)) mod 24)
           ((fst (floorRandom 60 g6) + fst (floorRandom 60 g8)) mod 60),
        price = int (fst (floorRandom 800 g3)) + 200,
        duration = toString (int (fst (floorRandom 6 g7) + 1)) @ ''h '' @
           toString (int (fst (floorRandom 60 g9))) @ ''m'',
        status = statuses ! fst (floorRandom 4 g10),
        date = today\<rparr>"
    unfolding sampleFlight_def list_lengths gs
    by (simp add: Let_def case_prod_beta)
  show ?thesis
    apply (rule exI [of _ "fst (floorRandom 16 g)"])
    apply (rule exI [of _ "fst (floorRandom 15 g1)"])
    apply (rule exI [of _ "fst (floorRandom 8 g2)"])
    apply (rule exI [of _ "fst (floorRandom 800 g3)"])
    apply (rule exI [of _ "fst (random g4)"])
    apply (rule exI [of _ "fst (floorRandom 24 g5)"])
    apply (rule exI [of _ "fst (floorRandom 60 g6)"])
    apply (rule exI [of _ "fst (floorRandom 6 g7)"])
    apply (rule exI [of _ "fst (floorRandom 60 g8)"])
    apply (rule exI [of _ "fst (floorRandom 60 g9)"])
    apply (rule exI [of _ "fst (floorRandom 4 g10)"])
    apply (intro conjI bounds eq)
    done
qed

lemma sampleFlight_origin:
  "origin' \<noteq> [] \<Longrightarrow> origin (fst (sampleFlight origin' destination' today g)) = origin'"
  using sampleFlight_shape [of origin' destination' today g] by auto

lemma sampleFlight_destination:
  "destination' \<noteq> [] \<Longrightarrow>
     destination (fst (sampleFlight origin' destination' today g)) = destination'"
  using sampleFlight_shape [of origin' destination' today g] by auto

lemma sampleFlight_distinct_ends:
  "origin (fst (sampleFlight [] [] today g)) \<noteq> destination (fst (sampleFlight [] [] today g))"
proof -
  obtain i j where i: "i < 16" and j: "j < 15"
    and o: "origin (fst (sampleFlight [] [] today g)) = airports ! i"
    and d: "destination (fst (sampleFlight [] [] today g)) =
      filter (\<lambda>a. a \<noteq> airports ! i) airports ! j"
    using sampleFlight_shape [of "[]" "[]" today g] by auto
  have len: "length (filter (\<lambda>a. a \<noteq> airports ! i) airports) = 15"
    using length_filter_neq_nth [OF distinct_airports, of i] i by (simp add: list_lengths)
  have "filter (\<lambda>a. a \<noteq> airports ! i) airports ! j \<in> set (filter (\<lambda>a. a \<noteq> airports ! i) airports)"
    using j len by (simp only: nth_mem)
  then have "filter (\<lambda>a. a \<noteq> airports ! i) airports ! j \<noteq> airports ! i"
    by simp
  then show ?thesis using o d by simp
qed

lemma sampleFlight_times:
  "\<exists>dh dm d off mm. dh < 24 \<and> dm < 60 \<and> 1 \<le> d \<and> d \<le> 6 \<and> off < 60 \<and> mm < 60 \<and>
     departure_time (fst (sampleFlight origin' destination' today g)) = clock dh dm \<and>
     arrival_time (fst (sampleFlight origin' destination' today g)) =
       clock ((dh + d) mod 24) ((dm + off) mod 60) \<and>
     duration (fst (sampleFlight origin' destination' today g)) =
       toString (int d) @ ''h '' @ toString (int mm) @ ''m''"
proof -
  obtain dh dm d off mm where "dh < 24" "dm < 60" "d < (6::nat)" "off < 60" "mm < 60"
    "departure_time (fst (sampleFlight origin' destination' today g)) = clock dh dm"
    "arrival_time (fst (sampleFlight origin' destination' today g)) =
       clock ((dh + (d + 1)) mod 24) ((dm + off) mod 60)"
    "duration (fst (sampleFlight origin' destination' today g)) =
       toString (int (d + 1)) @ ''h '' @ toString (int mm) @ ''m''"
    using sampleFlight_shape [of origin' destination' today g] by auto
  then show ?thesis
    by (intro exI [of _ dh] exI [of _ dm] exI [of _ "d + 1"] exI [of _ off] exI [of _ mm]) simp
qed

lemma sampleLoop_length: "length (fst (sampleLoop n origin' destination' today g)) = n"
  by (induction n arbitrary: g) (simp_all add: Let_def case_prod_beta)

lemma sampleLoop_all:
  assumes "\<And>g. P (fst (sampleFlight origin' destination' today g))"
  shows "\<forall>f \<in> set (fst (sampleLoop n origin' destination' today g)). P f"
  using assms by (induction n arbitrary: g) (simp_all add: Let_def case_prod_beta)

text \<open>
  C1. For every non-negative integer count, \<open>generateSampleData(count)\<close>, called
  with no origin and no destination filter, returns exactly count flight records,
  whatever the random source returns, and every record has an origin different from its
  destination.
\<close>

theorem generateSampleData_count:
  "length (fst (generateSampleData (Some (int n)) [] [] today g)) = n \<and>
   (\<forall>f \<in> set (fst (generateSampleData (Some (int n)) [] [] today g)).
      origin f \<noteq> destination f)"
  unfolding generateSampleData_def
  using sampleLoop_all [where P = "\<lambda>f. origin f \<noteq> destination f", OF sampleFlight_distinct_ends]
  by (simp add: sampleLoop_length)

lemma random_halves: "random halves = (1 / 2, halves)"
  by (simp add: random_def halves_def fraction.rep_eq)

lemma floorRandom_halves:
  "floorRandom (numeral n) halves = (nat \<lfloor>numeral n / (2::real)\<rfloor>, halves)"
  by (simp add: floorRandom_def random_halves)

lemma sampleFlight_halves:
  "sampleFlight [] [] ''2024-01-01'' halves =
    (\<lparr>flight_number = ''JE5500'', airline = ''JetBlue Airways'',
      origin = ''BOS'', destination = ''MIA'', route = ''BOS-MIA'',
      departure_time = ''12:30'', arrival_time = ''16:00'', price = 600,
      duration = ''4h 30m'', status = ''Boarding'', date = ''2024-01-01''\<rparr>, halves)"
  unfolding sampleFlight_def list_lengths
  apply (simp add: floorRandom_halves random_halves)
  apply (simp add: airports_def airlines_def statuses_def)
  apply (simp add: clock_def padStart_def toString_def digits.simps
      digitChar_def toUpperCase_def upperChar_def)
  done

lemma generateSampleData_halves:
  "fst (generateSampleData (Some 1) [] [] ''2024-01-01'' halves) =
    [\<lparr>flight_number = ''JE5500'', airline = ''JetBlue Airways'',
      origin = ''BOS'', destination = ''MIA'', route = ''BOS-MIA'',
      departure_time = ''12:30'', arrival_time = ''16:00'', price = 600,
      duration = ''4h 30m'', status = ''Boarding'', date = ''2024-01-01''\<rparr>]"
  by (simp add: generateSampleData_def sampleFlight_halves)

theorem generateSampleData_count_witness:
  "length (fst (generateSampleData (Some (int 1)) [] [] ''2024-01-01'' halves)) = 1 \<and>
   origin (hd (fst (generateSampleData (Some (int 1)) [] [] ''2024-01-01'' halves))) \<noteq>
   destination (hd (fst (generateSampleData (Some (int 1)) [] [] ''2024-01-01'' halves)))"
  using generateSampleData_count [of 1 "''2024-01-01''" halves]
  by (simp add: generateSampleData_halves)

text \<open>
  C9, as stated, fails: with a random source that returns 1/2 on every call the one
  record generated departs at 12:30 and arrives at 16:00, so the arrival minute is not
  the departure minute and the two times are not a whole number of hours apart.
\<close>

theorem arrival_minute_counterexample:
  "departure_time (hd (fst (generateSampleData (Some 1) [] [] ''2024-01-01'' halves))) = ''12:30'' \<and>
   arrival_time (hd (fst (generateSampleData (Some 1) [] [] ''2024-01-01'' halves))) = ''16:00''"
  by (simp add: generateSampleData_halves)

text \<open>
  C9, amended. For every record produced by \<open>generateSampleData\<close>, the arrival
  hour is the departure hour plus a whole duration of 1 to 6 hours, modulo 24, and that
  duration is the hour count of the record's duration text; the arrival minute is the
  departure minute plus a separately drawn offset of 0 to 59 minutes, modulo 60, with no
  carry into the hour.
\<close>

theorem generateSampleData_times:
  "\<forall>f \<in> set (fst (generateSampleData limit origin' destination' today g)).
     \<exists>dh dm d off mm. dh < 24 \<and> dm < 60 \<and> 1 \<le> d \<and> d \<le> 6 \<and> off < 60 \<and> mm < 60 \<and>
       departure_time f = clock dh dm \<and>
       arrival_time f = clock ((dh + d) mod 24) ((dm + off) mod 60) \<and>
       duration f = toString (int d) @ ''h '' @ toString (int mm) @ ''m''"
  unfolding generateSampleData_def
  by (rule sampleLoop_all) (rule sampleFlight_times)

theorem generateSampleData_times_witness:
  "\<exists>dh dm d off mm. dh < 24 \<and> dm < 60 \<and> 1 \<le> d \<and> d \<le> 6 \<and> off < 60 \<and> mm < 60 \<and>
     ''12:30'' = clock dh dm \<and> ''16:00'' = clock ((dh + d) mod 24) ((dm + off) mod 60) \<and>
     ''4h 30m'' = toString (int d) @ ''h '' @ toString (int mm) @ ''m''"
  using generateSampleData_times [of "Some 1" "[]" "[]" "''2024-01-01''" halves]
  by (simp add: generateSampleData_halves)

subsection \<open>CSV export of one record\<close>

text \<open>
  C2. \<open>convertToCSV\<close> applied to the one-element list holding the flight AA123 of
  American Airlines on route JFK-LAX, departing 08:00, arriving 11:00, priced 350 and
  On Time, returns the header row, a newline, and the seven comma-joined fields of the
  record. The fields the claim calls flightNumber, departureTime and arrivalTime are the
  properties \<open>flight_number\<close>, \<open>departure_time\<close> and \<open>arrival_time\<close> of the
  script's flight objects; the four properties the export does not read are arbitrary.
\<close>

theorem convertToCSV_single_record:
  "convertToCSV
     [\<lparr>flight_number = ''AA123'', airline = ''American Airlines'', origin = org,
       destination = dst, route = ''JFK-LAX'', departure_time = ''08:00'',
       arrival_time = ''11:00'', price = 350, duration = dur, status = ''On Time'',
       date = dt\<rparr>]
   = ''Flight Number,Airline,Route,Departure,Arrival,Price,Status'' @ [CHR 0x0A] @
     ''AA123,American Airlines,JFK-LAX,08:00,11:00,350,On Time''"
  by (simp add: convertToCSV_def csvRow_def csvHeaders_def toString_def digits.simps
      digitChar_def)

subsection \<open>Statistics cards\<close>

text \<open>
  C3. For every flight collection, each of the four displayed statistics (total flights,
  unique routes, unique airlines, unique airports) is the computed count or cardinality,
  except that a computed value of zero is replaced by the fixed default: 300, 10, 10, 10.
  On an empty collection all four cards show the defaults, not zero; on a non-empty one
  all four show the computed values.
\<close>

theorem updateStatistics_defaults:
  "statCards (updateStatistics w) =
     \<lparr>totalFlights =
        (if length (currentFlightData w) = 0 then 300 else length (currentFlightData w)),
      uniqueRoutes =
        (if card (route ` set (currentFlightData w)) = 0 then 10
         else card (route ` set (currentFlightData w))),
      totalAirlines =
        (if card (airline ` set (currentFlightData w)) = 0 then 10
         else card (airline ` set (currentFlightData w))),
      totalAirports =
        (if card (origin ` set (currentFlightData w) \<union> destination ` set (currentFlightData w)) = 0
         then 10
         else card (origin ` set (currentFlightData w) \<union> destination ` set (currentFlightData w)))\<rparr>
   \<and> (currentFlightData w = [] \<longrightarrow>
        statCards (updateStatistics w) =
          \<lparr>totalFlights = 300, uniqueRoutes = 10, totalAirlines = 10, totalAirports = 10\<rparr>)
   \<and> (currentFlightData w \<noteq> [] \<longrightarrow>
        statCards (updateStatistics w) =
          \<lparr>totalFlights = length (currentFlightData w),
           uniqueRoutes = card (route ` set (currentFlightData w)),
           totalAirlines = card (airline ` set (currentFlightData w)),
           totalAirports =
             card (origin ` set (currentFlightData w) \<union> destination ` set (currentFlightData w))\<rparr>)"
proof -
  have ends: "(\<Union>f\<in>set fs. {origin f, destination f}) =
      origin ` set fs \<union> destination ` set fs" for fs :: "flight list"
    by auto
  have shown: "statCards (updateStatistics w) =
     \<lparr>totalFlights = orElse (length (currentFlightData w)) 300,
      uniqueRoutes = orElse (card (route ` set (currentFlightData w))) 10,
      totalAirlines = orElse (card (airline ` set (currentFlightData w))) 10,
      totalAirports = orElse
        (card (origin ` set (currentFlightData w) \<union> destination ` set (currentFlightData w))) 10\<rparr>"
    by (simp add: updateStatistics_def dashboardStats_def ends)
  have nonzero: "currentFlightData w \<noteq> [] \<Longrightarrow>
      card (route ` set (currentFlightData w)) \<noteq> 0 \<and>
      card (airline ` set (currentFlightData w)) \<noteq> 0 \<and>
      card (origin ` set (currentFlightData w) \<union> destination ` set (currentFlightData w)) \<noteq> 0"
    by (simp add: card_eq_0_iff)
  show ?thesis
    using nonzero by (auto simp add: shown orElse_def)
qed

theorem updateStatistics_defaults_witness:
  "statCards (updateStatistics examplePage) =
     \<lparr>totalFlights = 300, uniqueRoutes = 10, totalAirlines = 10, totalAirports = 10\<rparr> \<and>
   statCards (updateStatistics (examplePage\<lparr>currentFlightData := [exampleFlight]\<rparr>)) =
     \<lparr>totalFlights = 1, uniqueRoutes = 1, totalAirlines = 1, totalAirports = 2\<rparr>"
  using updateStatistics_defaults [of examplePage]
    updateStatistics_defaults [of "examplePage\<lparr>currentFlightData := [exampleFlight]\<rparr>"]
  by (simp add: examplePage_def exampleFlight_def)

subsection \<open>Export\<close>



subsection \<open>What rendering leaves alone\<close>

lemma updateStatistics_frame:
  "currentFlightData (updateStatistics w) = currentFlightData w"
  "randomSource (updateStatistics w) = randomSource w"
  "dateLabels (updateStatistics w) = dateLabels w"
  "loadingOverlay (updateStatistics w) = loadingOverlay w"
  by (simp_all add: updateStatistics_def Let_def)

lemma updateCharts_frame:
  "currentFlightData (updateCharts w) = currentFlightData w"
  "statCards (updateCharts w) = statCards w"
  "loadingOverlay (updateCharts w) = loadingOverlay w"
  by (simp_all add: updateCharts_def updateChartsWithSampleData_def Let_def case_prod_beta)

lemma updateFlightTable_frame:
  "currentFlightData (updateFlightTable w) = currentFlightData w"
  "statCards (updateFlightTable w) = statCards w"
  "routeChart (updateFlightTable w) = routeChart w"
  "airlineChart (updateFlightTable w) = airlineChart w"
  "priceChart (updateFlightTable w) = priceChart w"
  "loadingOverlay (updateFlightTable w) = loadingOverlay w"
  by (simp_all add: updateFlightTable_def Let_def)

lemma updateTopRoutes_frame:
  "currentFlightData (updateTopRoutes w) = currentFlightData w"
  "statCards (updateTopRoutes w) = statCards w"
  "routeChart (updateTopRoutes w) = routeChart w"
  "airlineChart (updateTopRoutes w) = airlineChart w"
  "priceChart (updateTopRoutes w) = priceChart w"
  "flightTableBody (updateTopRoutes w) = flightTableBody w"
  "loadingOverlay (updateTopRoutes w) = loadingOverlay w"
  by (simp_all add: updateTopRoutes_def Let_def)

lemma updateDashboard_flights:
  "currentFlightData (updateDashboard w) = currentFlightData w"
  by (simp add: updateDashboard_def updateTopRoutes_frame updateFlightTable_frame
      updateCharts_frame updateStatistics_frame)

subsection \<open>Initial load\<close>



subsection \<open>Price trend\<close>







subsection \<open>What the page shows after a load\<close>

lemma views_cong:
  assumes "currentFlightData a = currentFlightData b"
  shows "statCards (updateStatistics a) = statCards (updateStatistics b)"
    and "routeChart (updateCharts a) = routeChart (updateCharts b)"
    and "airlineChart (updateCharts a) = airlineChart (updateCharts b)"
    and "flightTableBody (updateFlightTable a) = flightTableBody (updateFlightTable b)"
    and "topRoutesList (updateTopRoutes a) = topRoutesList (updateTopRoutes b)"
  using assms
  by (simp_all add: updateStatistics_def updateCharts_def updateChartsWithSampleData_def
      updateFlightTable_def updateTopRoutes_def Let_def case_prod_beta)

lemma updateDashboard_views:
  "statCards (updateDashboard w) = statCards (updateStatistics w)"
  "routeChart (updateDashboard w) = routeChart (updateCharts w)"
  "airlineChart (updateDashboard w) = airlineChart (updateCharts w)"
  "flightTableBody (updateDashboard w) = flightTableBody (updateFlightTable w)"
  "topRoutesList (updateDashboard w) = topRoutesList (updateTopRoutes w)"
  "loadingOverlay (updateDashboard w) = loadingOverlay w"
proof -
  have f1: "currentFlightData (updateStatistics w) = currentFlightData w"
    by (rule updateStatistics_frame)
  have f2: "currentFlightData (updateCharts (updateStatistics w)) = currentFlightData w"
    by (simp add: updateCharts_frame updateStatistics_frame)
  have f3: "currentFlightData (updateFlightTable (updateCharts (updateStatistics w))) =
      currentFlightData w"
    by (simp add: updateFlightTable_frame updateCharts_frame updateStatistics_frame)
  show "statCards (updateDashboard w) = statCards (updateStatistics w)"
    by (simp add: updateDashboard_def updateTopRoutes_frame updateFlightTable_frame
        updateCharts_frame)
  show "routeChart (updateDashboard w) = routeChart (updateCharts w)"
    using views_cong(2) [OF f1]
    by (simp add: updateDashboard_def updateTopRoutes_frame updateFlightTable_frame)
  show "airlineChart (updateDashboard w) = airlineChart (updateCharts w)"
    using views_cong(3) [OF f1]
    by (simp add: updateDashboard_def updateTopRoutes_frame updateFlightTable_frame)
  show "flightTableBody (updateDashboard w) = flightTableBody (updateFlightTable w)"
    using views_cong(4) [OF f2]
    by (simp add: updateDashboard_def updateTopRoutes_frame)
  show "topRoutesList (updateDashboard w) = topRoutesList (updateTopRoutes w)"
    using views_cong(5) [OF f3] by (simp add: updateDashboard_def)
  show "loadingOverlay (updateDashboard w) = loadingOverlay w"
    by (simp add: updateDashboard_def updateTopRoutes_frame updateFlightTable_frame
        updateCharts_frame updateStatistics_frame)
qed

text \<open>After \<open>updateDashboard\<close> every view is the aggregate of the current collection.\<close>

lemma shown_after_updateDashboard:
  assumes "w' = updateDashboard w1" "currentFlightData w2 = currentFlightData w1"
  shows "currentFlightData w' = currentFlightData w1"
    and "statCards w' = statCards (updateStatistics w2)"
    and "routeChart w' = routeChart (updateCharts w2)"
    and "airlineChart w' = airlineChart (updateCharts w2)"
    and "flightTableBody w' = flightTableBody (updateFlightTable w2)"
    and "topRoutesList w' = topRoutesList (updateTopRoutes w2)"
  using assms views_cong [of w2 w1]
  by (simp_all add: updateDashboard_views updateDashboard_flights)

lemma shown_after_update:
  assumes "w' = hideLoading (updateDashboard w1)" "currentFlightData w2 = currentFlightData w1"
  shows "currentFlightData w' = currentFlightData w1"
    and "statCards w' = statCards (updateStatistics w2)"
    and "routeChart w' = routeChart (updateCharts w2)"
    and "airlineChart w' = airlineChart (updateCharts w2)"
    and "flightTableBody w' = flightTableBody (updateFlightTable w2)"
    and "topRoutesList w' = topRoutesList (updateTopRoutes w2)"
    and "loadingOverlay w' = False"
  using assms shown_after_updateDashboard [OF refl assms(2)]
  by (simp_all add: hideLoading_def)

lemma parseInt_options:
  "parseInt ''50'' = Some 50" "parseInt ''100'' = Some 100"
  "parseInt ''200'' = Some 200" "parseInt ''500'' = Some 500"
  by (simp_all add: parseInt_def isSpace_def isDigit_def digitValue_def parseDigits_def)


lemma generateSampleData_length:
  "length (fst (generateSampleData (Some n) origin' destination' today g)) = nat n"
  by (simp add: generateSampleData_def sampleLoop_length)

lemma loadFilteredData_success:
  assumes "fetch \<lparr>sp_origin = (if fromAirportInput w \<noteq> [] then Some (toUpperCase (fromAirportInput w)) else None),
             sp_destination = (if toAirportInput w \<noteq> [] then Some (toUpperCase (toAirportInput w)) else None),
             sp_date = None\<rparr> = Response True (JsonData fl)"
  shows "loadFilteredData fetch w =
    hideLoading (updateDashboard (w\<lparr>loadingOverlay := True, currentFlightData :=
      (case fl of None \<Rightarrow> [] | Some fs \<Rightarrow> slice0 fs (parseInt (optionValue (dataLimit w))))\<rparr>))"
  using assms by (simp add: loadFilteredData_def showLoading_def Let_def)

lemma loadFilteredData_fallback:
  assumes "fetch \<lparr>sp_origin = (if fromAirportInput w \<noteq> [] then Some (toUpperCase (fromAirportInput w)) else None),
             sp_destination = (if toAirportInput w \<noteq> [] then Some (toUpperCase (toAirportInput w)) else None),
             sp_date = None\<rparr> = r"
    and "r = NetworkError \<or> r = Response False b \<or> r = Response True JsonError"
  shows "\<exists>errs. loadFilteredData fetch w =
    hideLoading (updateDashboard (w\<lparr>loadingOverlay := True, consoleErrors := errs,
      currentFlightData := fst (generateSampleData (parseInt (optionValue (dataLimit w)))
         (fromAirportInput w) (toAirportInput w) (todayISO w) (randomSource w)),
      randomSource := snd (generateSampleData (parseInt (optionValue (dataLimit w)))
         (fromAirportInput w) (toAirportInput w) (todayISO w) (randomSource w))\<rparr>))"
proof -
  from assms(2) consider "r = NetworkError" | "r = Response False b" | "r = Response True JsonError"
    by blast
  then show ?thesis
  proof cases
    case 1
    with assms(1) show ?thesis
      by (intro exI [of _ "consoleErrors w @ [''Error loading data:'']"])
        (simp add: loadFilteredData_def showLoading_def Let_def case_prod_beta)
  next
    case 2
    with assms(1) show ?thesis
      by (intro exI [of _ "consoleErrors w"])
        (simp add: loadFilteredData_def showLoading_def Let_def case_prod_beta)
  next
    case 3
    with assms(1) show ?thesis
      by (intro exI [of _ "consoleErrors w @ [''Error loading data:'']"])
        (simp add: loadFilteredData_def showLoading_def Let_def case_prod_beta)
  qed
qed



subsection \<open>Filtered load\<close>




text \<open>
  C7. When \<open>loadFilteredData\<close> runs with the inputs JFK and LAX and the limit 50, and
  the search request (sent with the upper-cased codes JFK and LAX) fails, either because
  \<open>fetch\<close> throws or because the response is not \<open>ok\<close>, the resulting collection has
  exactly 50 records, every one with origin JFK and destination LAX, the loading overlay
  is hidden, and the page shows what a successful load returning these same records
  shows: the same collection, statistics, ranking charts, table and top-routes list.
\<close>

theorem loadFilteredData_fallback_JFK_LAX:
  assumes "fromAirportInput w = ''JFK''" and "toAirportInput w = ''LAX''"
    and "dataLimit w = Limit50"
    and "fetch \<lparr>sp_origin = Some ''JFK'', sp_destination = Some ''LAX'', sp_date = None\<rparr> =
           NetworkError \<or>
         fetch \<lparr>sp_origin = Some ''JFK'', sp_destination = Some ''LAX'', sp_date = None\<rparr> =
           Response False b"
  shows "length (currentFlightData (loadFilteredData fetch w)) = 50 \<and>
    (\<forall>f \<in> set (currentFlightData (loadFilteredData fetch w)).
       origin f = ''JFK'' \<and> destination f = ''LAX'') \<and>
    loadingOverlay (loadFilteredData fetch w) = False \<and>
    currentFlightData (loadFilteredData
      (always (Response True (JsonData (Some (currentFlightData (loadFilteredData fetch w)))))) w) =
      currentFlightData (loadFilteredData fetch w) \<and>
    statCards (loadFilteredData
      (always (Response True (JsonData (Some (currentFlightData (loadFilteredData fetch w)))))) w) =
      statCards (loadFilteredData fetch w) \<and>
    routeChart (loadFilteredData
      (always (Response True (JsonData (Some (currentFlightData (loadFilteredData fetch w)))))) w) =
      routeChart (loadFilteredData fetch w) \<and>
    airlineChart (loadFilteredData
      (always (Response True (JsonData (Some (currentFlightData (loadFilteredData fetch w)))))) w) =
      airlineChart (loadFilteredData fetch w) \<and>
    flightTableBody (loadFilteredData
      (always (Response True (JsonData (Some (currentFlightData (loadFilteredData fetch w)))))) w) =
      flightTableBody (loadFilteredData fetch w) \<and>
    topRoutesList (loadFilteredData
      (always (Response True (JsonData (Some (currentFlightData (loadFilteredData fetch w)))))) w) =
      topRoutesList (loadFilteredData fetch w) \<and>
    loadingOverlay (loadFilteredData
      (always (Response True (JsonData (Some (currentFlightData (loadFilteredData fetch w)))))) w) =
      loadingOverlay (loadFilteredData fetch w)"
proof -
  let ?w' = "loadFilteredData fetch w"
  let ?G = "generateSampleData (Some 50) ''JFK'' ''LAX'' (todayISO w) (randomSource w)"
  have up: "toUpperCase ''JFK'' = ''JFK''" "toUpperCase ''LAX'' = ''LAX''"
    by (simp_all add: toUpperCase_def upperChar_def)
  define r where "r = fetch \<lparr>sp_origin = Some ''JFK'', sp_destination = Some ''LAX'', sp_date = None\<rparr>"
  have req: "fetch \<lparr>sp_origin = (if fromAirportInput w \<noteq> [] then Some (toUpperCase (fromAirportInput w)) else None),
             sp_destination = (if toAirportInput w \<noteq> [] then Some (toUpperCase (toAirportInput w)) else None),
             sp_date = None\<rparr> = r"
    by (simp add: assms(1,2) up r_def)
  have "r = NetworkError \<or> r = Response False b \<or> r = Response True JsonError"
    using assms(4) by (auto simp add: r_def)
  from loadFilteredData_fallback [of fetch w r b, OF req this] obtain errs where
    w': "?w' = hideLoading (updateDashboard
      (w\<lparr>loadingOverlay := True, consoleErrors := errs, currentFlightData := fst ?G,
         randomSource := snd ?G\<rparr>))"
    by (auto simp add: assms(1,2,3) parseInt_options)
  have flights: "currentFlightData ?w' = fst ?G"
    using shown_after_update(1) [OF w' refl] by simp
  have len: "length (fst ?G) = 50"
    by (simp add: generateSampleData_length)
  have ends: "\<forall>f \<in> set (fst ?G). origin f = ''JFK'' \<and> destination f = ''LAX''"
    unfolding generateSampleData_def
    by (rule sampleLoop_all) (simp add: sampleFlight_origin sampleFlight_destination)
  let ?ok = "loadFilteredData (always (Response True (JsonData (Some (fst ?G))))) w"
  have ok: "?ok = hideLoading (updateDashboard
      (w\<lparr>loadingOverlay := True, currentFlightData := fst ?G\<rparr>))"
    using loadFilteredData_success [of "always (Response True (JsonData (Some (fst ?G))))" w "Some (fst ?G)"]
      len
    by (simp add: always_def assms(3) parseInt_options slice0_def)
  have same': "currentFlightData ?w' = currentFlightData
      (w\<lparr>loadingOverlay := True, consoleErrors := errs, currentFlightData := fst ?G,
         randomSource := snd ?G\<rparr>)"
    using flights by simp
  have same_ok: "currentFlightData ?w' = currentFlightData
      (w\<lparr>loadingOverlay := True, currentFlightData := fst ?G\<rparr>)"
    using flights by simp
  note a = shown_after_update [OF w' same']
  note b = shown_after_update [OF ok same_ok]
  show ?thesis
    unfolding flights using len ends a(2-7) b by (simp add: flights)
qed

theorem loadFilteredData_fallback_witness:
  "length (currentFlightData (loadFilteredData (always NetworkError)
     (examplePage\<lparr>fromAirportInput := ''JFK'', toAirportInput := ''LAX''\<rparr>))) = 50 \<and>
   loadingOverlay (loadFilteredData (always NetworkError)
     (examplePage\<lparr>fromAirportInput := ''JFK'', toAirportInput := ''LAX''\<rparr>)) = False"
  using loadFilteredData_fallback_JFK_LAX
    [of "examplePage\<lparr>fromAirportInput := ''JFK'', toAirportInput := ''LAX''\<rparr>" "always NetworkError"]
  by (simp add: always_def examplePage_def)

subsection \<open>Rankings\<close>



lemma firstSeen_snoc:
  "rev (remdups (rev (ks @ [k]))) =
     (if k \<in> set ks then rev (remdups (rev ks)) else rev (remdups (rev ks)) @ [k])"
  by simp


















lemma rankedBefore_not_index:
  assumes "\<not> isArrayIndex a" and "\<not> isArrayIndex b"
  shows "rankedBefore ks a b =
    (count_list ks a > count_list ks b \<or>
     (count_list ks a = count_list ks b \<and> firstIndex ks a < firstIndex ks b))"
  using assms by (simp add: rankedBefore_def entriesBefore_def)

lemma not_index_route: "\<not> isArrayIndex (a @ ''-'' @ b)"
proof -
  have "\<not> list_all isDigit (a @ ''-'' @ b)"
    by (simp add: isDigit_def digitValue_def)
  then show ?thesis
    unfolding isArrayIndex_def by blast
qed







end
